theory Spec2Isabelle
  imports Main
begin

section \<open>Data model of RedisPoolManager\<close>

text \<open>
  A client is a mutable JavaScript object shared by reference between the pool's two
  sets, its callers and the event handlers, so clients live in an explicit store indexed
  by a reference (a natural number); the sets hold references.

  The fields \<open>connectionId\<close>, \<open>lastUsed\<close> and \<open>isHealthy\<close> are the pool's own metadata
  (createConnection assigns them once the connection is established). \<open>isHealthy\<close> is
  only ever read through its truthiness, so the value \<open>undefined\<close> it has before the
  first assignment is modelled as \<open>False\<close>. \<open>isOpen\<close> and \<open>isReady\<close> are getters of the
  redis client: the library owns them, the pool only reads them. \<open>name\<close> is the
  \<open>name\<close> option handed to \<open>createClient\<close>, which is the generated connection id.
\<close>

type_synonym ref = nat

record client =
  name :: string
  connectionId :: "string option"
  lastUsed :: "int option"
  isHealthy :: bool
  isOpen :: bool
  isReady :: bool

record stats =
  created :: nat
  destroyed :: nat
  acquired :: nat
  released :: nat
  errors :: nat

text \<open>Reports written with \<open>console.error\<close>.\<close>

datatype report =
    FailedToCreate ref
  | FailedToCreateReplacement
  | ErrorDestroying ref
  | HealthCheckFailed ref
  | ConnectionError ref

text \<open>
  The pool object. A JavaScript \<open>Set\<close> iterates in insertion order, \<open>add\<close> of a member
  changes nothing and \<open>values().next().value\<close> is the oldest member: the sets are lists
  without repetition, oldest first.

  The last six fields are not fields of the class: they are the part of the runtime
  the pool's code depends on. \<open>heap\<close> is the object store, \<open>next_client\<close> the next
  unused reference, \<open>connecting\<close> the clients whose \<open>connect()\<close> promise is pending,
  \<open>awaiting\<close> the clients a suspended strategy-2 acquire is waiting for,
  \<open>quitting\<close> the clients whose \<open>quit()\<close> promise is pending, and \<open>console\<close> the
  reports written so far. The \<open>config\<close> field of the class is stored and passed to
  \<open>createClient\<close> unread; it is left out.
\<close>

record pool =
  maxConnections :: int
  minConnections :: int
  connectionTimeout :: int
  retryDelay :: int
  maxRetries :: int
  availableConnections :: "ref list"
  busyConnections :: "ref list"
  isShuttingDown :: bool
  stats :: stats
  heap :: "ref \<Rightarrow> client"
  next_client :: ref
  connecting :: "ref list"
  awaiting :: "ref list"
  quitting :: "ref list"
  console :: "report list"

definition set_add :: "'a \<Rightarrow> 'a list \<Rightarrow> 'a list" where
  "set_add x xs = (if x \<in> set xs then xs else xs @ [x])"

definition set_delete :: "'a \<Rightarrow> 'a list \<Rightarrow> 'a list" where
  "set_delete x xs = removeAll x xs"

definition getTotalConnections :: "pool \<Rightarrow> int" where
  "getTotalConnections w =
     int (length (availableConnections w)) + int (length (busyConnections w))"

text \<open>Truthiness of \<open>client.connectionId\<close>: \<open>undefined\<close> and the empty string are falsy.\<close>

definition truthy_id :: "string option \<Rightarrow> bool" where
  "truthy_id i = (case i of None \<Rightarrow> False | Some s \<Rightarrow> s \<noteq> [])"

section \<open>Connection factory\<close>

text \<open>
  The object \<open>createClient\<close> returns: no pool metadata yet, socket closed.
\<close>

definition new_client :: "string \<Rightarrow> client" where
  "new_client cid =
     \<lparr>name = cid, connectionId = None, lastUsed = None,
      isHealthy = False, isOpen = False, isReady = False\<rparr>"

text \<open>
  createConnection up to its \<open>await client.connect()\<close>: the id is generated
  (\<open>redis_\<close> followed by a timestamp and a random suffix, both supplied by the
  environment as \<open>sfx\<close>), the client object is created, the handlers are registered and
  \<open>connect()\<close> is called. The result is the new client's reference.
\<close>

definition createConnection_begin :: "string \<Rightarrow> pool \<Rightarrow> ref \<times> pool" where
  "createConnection_begin sfx w =
     (let c = next_client w in
      (c, w\<lparr>heap := (heap w)(c := new_client (''redis_'' @ sfx)),
            next_client := Suc c,
            connecting := connecting w @ [c]\<rparr>))"

text \<open>
  What the redis library has done to the client when \<open>connect()\<close> resolves: the socket
  is open and ready.
\<close>

definition library_connected :: "ref \<Rightarrow> pool \<Rightarrow> pool" where
  "library_connected c w =
     w\<lparr>heap := (heap w)(c := (heap w c)\<lparr>isOpen := True, isReady := True\<rparr>)\<rparr>"

text \<open>
  createConnection after \<open>connect()\<close> has resolved: the metadata is set, the client is
  added to \<open>availableConnections\<close>, \<open>created\<close> is counted and the client is returned
  (the promise of createConnection resolves with it).
\<close>

definition createConnection_connected :: "ref \<Rightarrow> int \<Rightarrow> pool \<Rightarrow> pool" where
  "createConnection_connected c now w =
     w\<lparr>heap := (heap w)(c := (heap w c)
          \<lparr>connectionId := Some (name (heap w c)), lastUsed := Some now, isHealthy := True\<rparr>),
       availableConnections := set_add c (availableConnections w),
       stats := (stats w)\<lparr>created := created (stats w) + 1\<rparr>,
       connecting := removeAll c (connecting w)\<rparr>"

text \<open>
  createConnection after \<open>connect()\<close> has rejected: the catch block reports and
  rethrows; no set and no counter changes.
\<close>

definition createConnection_failed :: "ref \<Rightarrow> pool \<Rightarrow> pool" where
  "createConnection_failed c w =
     w\<lparr>connecting := removeAll c (connecting w),
       console := console w @ [FailedToCreate c]\<rparr>"

section \<open>Constructor\<close>

text \<open>
  The pool options: a field is \<open>None\<close> when the caller omitted it. Numbers are modelled
  as integers, so \<open>0\<close> is the only falsy number.
\<close>

record options =
  opt_maxConnections :: "int option"
  opt_minConnections :: "int option"
  opt_connectionTimeout :: "int option"
  opt_retryDelay :: "int option"
  opt_maxRetries :: "int option"

text \<open>\<open>options.x || d\<close>\<close>

definition or_default :: "int option \<Rightarrow> int \<Rightarrow> int" where
  "or_default v d = (case v of None \<Rightarrow> d | Some n \<Rightarrow> if n = 0 then d else n)"

definition constructor_fields :: "options \<Rightarrow> pool" where
  "constructor_fields opts =
     \<lparr>maxConnections = or_default (opt_maxConnections opts) 10,
      minConnections = or_default (opt_minConnections opts) 2,
      connectionTimeout = or_default (opt_connectionTimeout opts) 30000,
      retryDelay = or_default (opt_retryDelay opts) 1000,
      maxRetries = or_default (opt_maxRetries opts) 5,
      availableConnections = [],
      busyConnections = [],
      isShuttingDown = False,
      stats = \<lparr>created = 0, destroyed = 0, acquired = 0, released = 0, errors = 0\<rparr>,
      heap = (\<lambda>_. new_client []),
      next_client = 0,
      connecting = [],
      awaiting = [],
      quitting = [],
      console = []\<rparr>"

text \<open>
  initializePool up to its \<open>await Promise.all\<close>: the loop \<open>for (i = 0; i < minConnections; i++)\<close>
  starts one creation per round; \<open>sfx i\<close> is the id suffix the environment gives round \<open>i\<close>.
\<close>

fun initializePool_loop :: "(nat \<Rightarrow> string) \<Rightarrow> nat \<Rightarrow> nat \<Rightarrow> pool \<Rightarrow> pool" where
  "initializePool_loop sfx i 0 w = w"
| "initializePool_loop sfx i (Suc k) w =
     initializePool_loop sfx (Suc i) k (snd (createConnection_begin (sfx i) w))"

definition initializePool_begin :: "(nat \<Rightarrow> string) \<Rightarrow> pool \<Rightarrow> pool" where
  "initializePool_begin sfx w = initializePool_loop sfx 0 (nat (minConnections w)) w"

definition RedisPoolManager :: "options \<Rightarrow> (nat \<Rightarrow> string) \<Rightarrow> pool" where
  "RedisPoolManager opts sfx = initializePool_begin sfx (constructor_fields opts)"

section \<open>Destruction\<close>

text \<open>
  destroyConnection up to its \<open>await client.quit()\<close>. The client is deleted from both
  sets. When the handle is open \<open>quit()\<close> is called and the function is suspended; when
  it is not, \<open>destroyed\<close> is counted at once. The client is \<open>None\<close> for a null argument.
\<close>

definition destroyConnection_begin :: "ref option \<Rightarrow> pool \<Rightarrow> pool" where
  "destroyConnection_begin cl w =
     (case cl of
        None \<Rightarrow> w
      | Some c \<Rightarrow>
          (let w1 = w\<lparr>availableConnections := set_delete c (availableConnections w),
                      busyConnections := set_delete c (busyConnections w)\<rparr>
           in if isOpen (heap w1 c)
              then w1\<lparr>quitting := quitting w1 @ [c]\<rparr>
              else w1\<lparr>stats := (stats w1)\<lparr>destroyed := destroyed (stats w1) + 1\<rparr>\<rparr>))"

text \<open>What the redis library has done to the client when \<open>quit()\<close> resolves.\<close>

definition library_closed :: "ref \<Rightarrow> pool \<Rightarrow> pool" where
  "library_closed c w =
     w\<lparr>heap := (heap w)(c := (heap w c)\<lparr>isOpen := False, isReady := False\<rparr>)\<rparr>"

text \<open>destroyConnection after \<open>quit()\<close> has resolved: the rest of the try block.\<close>

definition destroyConnection_quit_resolved :: "ref \<Rightarrow> pool \<Rightarrow> pool" where
  "destroyConnection_quit_resolved c w =
     w\<lparr>stats := (stats w)\<lparr>destroyed := destroyed (stats w) + 1\<rparr>,
       quitting := remove1 c (quitting w)\<rparr>"

text \<open>destroyConnection after \<open>quit()\<close> has rejected: the catch block.\<close>

definition destroyConnection_quit_rejected :: "ref \<Rightarrow> pool \<Rightarrow> pool" where
  "destroyConnection_quit_rejected c w =
     w\<lparr>quitting := remove1 c (quitting w),
       console := console w @ [ErrorDestroying c]\<rparr>"

definition settle_quit :: "(ref \<Rightarrow> bool) \<Rightarrow> ref \<Rightarrow> pool \<Rightarrow> pool" where
  "settle_quit quit_ok c w =
     (if quit_ok c then destroyConnection_quit_resolved c (library_closed c w)
      else destroyConnection_quit_rejected c w)"

datatype js_error =
    PoolShuttingDown
  | FailedToCreateNew
  | TimeoutWaiting

text \<open>
  destroyConnection from call to settlement, as a caller that awaits it sees it;
  \<open>quit_ok c\<close> says whether the \<open>quit()\<close> of \<open>c\<close> resolves. The first component is the
  reason the returned promise rejects with, \<open>None\<close> when it is fulfilled.
\<close>

definition destroyConnection :: "(ref \<Rightarrow> bool) \<Rightarrow> ref option \<Rightarrow> pool \<Rightarrow> js_error option \<times> pool" where
  "destroyConnection quit_ok cl w =
     (case cl of
        None \<Rightarrow> (None, w)
      | Some c \<Rightarrow>
          (let w1 = destroyConnection_begin (Some c) w
           in if isOpen (heap w c) then (None, settle_quit quit_ok c w1) else (None, w1)))"

section \<open>Acquire\<close>

datatype acquire_step =
    Threw js_error
  | Returned ref
  | AwaitCreate ref
  | Waiting

text \<open>
  The body shared by strategy 1 and by the poller of strategy 3, for a non-empty
  \<open>availableConnections\<close> whose oldest member is \<open>c\<close>.
\<close>

definition take_available :: "ref \<Rightarrow> int \<Rightarrow> pool \<Rightarrow> pool" where
  "take_available c now w =
     w\<lparr>availableConnections := set_delete c (availableConnections w),
       busyConnections := set_add c (busyConnections w),
       heap := (heap w)(c := (heap w c)\<lparr>lastUsed := Some now\<rparr>)\<rparr>"

text \<open>
  acquireConnection up to its first suspension. \<open>AwaitCreate c\<close>: strategy 2 has called
  createConnection, which is suspended in \<open>connect()\<close> for the new client \<open>c\<close>.
  \<open>Waiting\<close>: strategy 3 has started its timer and its first \<open>checkForConnection\<close>
  found nothing.
\<close>

definition acquireConnection_call :: "string \<Rightarrow> int \<Rightarrow> pool \<Rightarrow> acquire_step \<times> pool" where
  "acquireConnection_call sfx now w =
     (if isShuttingDown w then (Threw PoolShuttingDown, w)
      else
        (let w1 = w\<lparr>stats := (stats w)\<lparr>acquired := acquired (stats w) + 1\<rparr>\<rparr> in
         case availableConnections w1 of
           c # _ \<Rightarrow> (Returned c, take_available c now w1)
         | [] \<Rightarrow>
             if getTotalConnections w1 < maxConnections w1
             then (let (c, w2) = createConnection_begin sfx w1
                   in (AwaitCreate c, w2\<lparr>awaiting := awaiting w2 @ [c]\<rparr>))
             else (Waiting, w1)))"

text \<open>Strategy 2 after createConnection has returned \<open>c\<close>.\<close>

definition acquireConnection_created :: "ref \<Rightarrow> pool \<Rightarrow> acquire_step \<times> pool" where
  "acquireConnection_created c w =
     (Returned c,
      w\<lparr>availableConnections := set_delete c (availableConnections w),
        busyConnections := set_add c (busyConnections w),
        awaiting := removeAll c (awaiting w)\<rparr>)"

text \<open>Strategy 2 after createConnection has thrown: the error is wrapped and rethrown.\<close>

definition acquireConnection_create_failed :: "ref \<Rightarrow> pool \<Rightarrow> acquire_step \<times> pool" where
  "acquireConnection_create_failed c w =
     (Threw FailedToCreateNew, w\<lparr>awaiting := removeAll c (awaiting w)\<rparr>)"

text \<open>
  One run of \<open>checkForConnection\<close> in strategy 3. \<open>None\<close>: nothing available, the
  poller is scheduled again.
\<close>

definition checkForConnection :: "int \<Rightarrow> pool \<Rightarrow> ref option \<times> pool" where
  "checkForConnection now w =
     (case availableConnections w of
        c # _ \<Rightarrow> (Some c, take_available c now w)
      | [] \<Rightarrow> (None, w))"

text \<open>The timer of strategy 3 fires: the promise rejects, the pool is untouched.\<close>

definition acquireConnection_timeout :: "pool \<Rightarrow> acquire_step \<times> pool" where
  "acquireConnection_timeout w = (Threw TimeoutWaiting, w)"

text \<open>
  acquireConnection from call to settlement when nothing else runs in between;
  \<open>connect_ok\<close> says whether \<open>connect()\<close> resolves. In strategy 3 nothing is released
  while the caller waits, so the timer fires.
\<close>

definition acquireConnection :: "string \<Rightarrow> int \<Rightarrow> bool \<Rightarrow> pool \<Rightarrow> acquire_step \<times> pool" where
  "acquireConnection sfx now connect_ok w =
     (case acquireConnection_call sfx now w of
        (AwaitCreate c, w1) \<Rightarrow>
          if connect_ok
          then acquireConnection_created c (createConnection_connected c now (library_connected c w1))
          else acquireConnection_create_failed c (createConnection_failed c w1)
      | (Waiting, w1) \<Rightarrow> acquireConnection_timeout w1
      | r \<Rightarrow> r)"

section \<open>Release\<close>

definition releaseConnection :: "ref option \<Rightarrow> pool \<Rightarrow> pool" where
  "releaseConnection cl w =
     (case cl of
        None \<Rightarrow> w
      | Some c \<Rightarrow>
          if \<not> truthy_id (connectionId (heap w c)) then w
          else
            (let w1 = w\<lparr>stats := (stats w)\<lparr>released := released (stats w) + 1\<rparr>\<rparr> in
             if c \<in> set (busyConnections w1)
             then
               (let w2 = w1\<lparr>busyConnections := set_delete c (busyConnections w1)\<rparr> in
                if isHealthy (heap w2 c) \<and> isReady (heap w2 c)
                then w2\<lparr>availableConnections := set_add c (availableConnections w2)\<rparr>
                else destroyConnection_begin (Some c) w2)
             else w1))"

definition removeConnection :: "ref \<Rightarrow> pool \<Rightarrow> pool" where
  "removeConnection c w =
     w\<lparr>availableConnections := set_delete c (availableConnections w),
       busyConnections := set_delete c (busyConnections w)\<rparr>"

section \<open>Connection errors\<close>

text \<open>
  When the total is below the minimum one replacement is started; its promise is given
  a catch handler only. \<open>sfx\<close> is the id suffix the replacement would get.
\<close>

definition handleConnectionError :: "ref \<Rightarrow> string \<Rightarrow> pool \<Rightarrow> pool" where
  "handleConnectionError c sfx w =
     (let w1 = w\<lparr>heap := (heap w)(c := (heap w c)\<lparr>isHealthy := False\<rparr>)\<rparr>;
          w2 = (if c \<in> set (busyConnections w1)
                then w1\<lparr>busyConnections := set_delete c (busyConnections w1)\<rparr>
                else w1);
          w3 = w2\<lparr>availableConnections := set_delete c (availableConnections w2)\<rparr>
      in if getTotalConnections w3 < minConnections w3
         then snd (createConnection_begin sfx w3)
         else w3)"

text \<open>The handler registered with \<open>client.on('error', ...)\<close>.\<close>

definition on_error :: "ref \<Rightarrow> string \<Rightarrow> pool \<Rightarrow> pool" where
  "on_error c sfx w =
     handleConnectionError c sfx
       (w\<lparr>console := console w @ [ConnectionError c],
          stats := (stats w)\<lparr>errors := errors (stats w) + 1\<rparr>\<rparr>)"

text \<open>
  The catch handler of a replacement's promise, after createConnection has reported
  and rethrown: a second report, nothing else.
\<close>

definition replacement_failed :: "ref \<Rightarrow> pool \<Rightarrow> pool" where
  "replacement_failed c w =
     (let w1 = createConnection_failed c w
      in w1\<lparr>console := console w1 @ [FailedToCreateReplacement]\<rparr>)"

section \<open>Health check\<close>

text \<open>The clients \<open>ping()\<close> is called on: the loop runs over \<open>availableConnections\<close>.\<close>

definition healthCheck_probed :: "pool \<Rightarrow> ref list" where
  "healthCheck_probed w = availableConnections w"

text \<open>The catch handler of one rejected \<open>ping()\<close>.\<close>

definition ping_rejected :: "ref \<Rightarrow> pool \<Rightarrow> pool" where
  "ping_rejected c w =
     w\<lparr>console := console w @ [HealthCheckFailed c],
       heap := (heap w)(c := (heap w c)\<lparr>isHealthy := False\<rparr>)\<rparr>"

text \<open>
  healthCheck after \<open>Promise.allSettled\<close>: the loop runs over a copy of
  \<open>availableConnections\<close> and calls destroyConnection, without awaiting it, on each
  member that is not healthy. When the loop ends the promise of healthCheck resolves.
\<close>

definition healthCheck_resume :: "pool \<Rightarrow> pool" where
  "healthCheck_resume w =
     fold (\<lambda>c v. if \<not> isHealthy (heap v c) then destroyConnection_begin (Some c) v else v)
       (availableConnections w) w"

text \<open>
  healthCheck from call to the resolution of its promise when nothing else runs in
  between; \<open>ping_ok c\<close> says whether the \<open>ping()\<close> of \<open>c\<close> resolves.
\<close>

definition healthCheck :: "(ref \<Rightarrow> bool) \<Rightarrow> pool \<Rightarrow> pool" where
  "healthCheck ping_ok w =
     healthCheck_resume
       (fold (\<lambda>c v. if ping_ok c then v else ping_rejected c v) (healthCheck_probed w) w)"

section \<open>Shutdown\<close>

text \<open>shutdown up to its \<open>await Promise.allSettled\<close>.\<close>

definition shutdown_begin :: "pool \<Rightarrow> pool" where
  "shutdown_begin w =
     (let w1 = w\<lparr>isShuttingDown := True\<rparr>;
          allConnections = availableConnections w1 @ busyConnections w1
      in fold (\<lambda>c. destroyConnection_begin (Some c)) allConnections w1)"

text \<open>
  shutdown from call to the resolution of its promise: every \<open>quit()\<close> it started has
  settled, \<open>quit_ok c\<close> says how.
\<close>

definition shutdown :: "(ref \<Rightarrow> bool) \<Rightarrow> pool \<Rightarrow> pool" where
  "shutdown quit_ok w =
     fold (settle_quit quit_ok)
       (filter (\<lambda>c. isOpen (heap w c)) (availableConnections w @ busyConnections w))
       (shutdown_begin w)"

section \<open>Interleavings\<close>

text \<open>
  JavaScript runs each piece of code between two suspensions without interruption, and
  anything may run between two pieces. An event is one such piece: a call of a public
  method up to its first suspension, the continuation of a suspended function, a
  handler, or a change the redis library makes to a client's socket state.
  \<open>Connected\<close> and \<open>ConnectRejected\<close> can only happen to a client whose \<open>connect()\<close> is
  pending, \<open>AcquireCreated\<close> to a client a strategy-2 acquire is waiting for and whose
  \<open>connect()\<close> has resolved, \<open>QuitSettled\<close> to one whose \<open>quit()\<close> is pending; elsewhere
  they change nothing. A creation that is rejected was started by an acquire, which
  then fails, by handleConnectionError as a replacement (the flag of \<open>ConnectRejected\<close>
  says so), or by initializePool, whose own report is not modelled.
\<close>

datatype event =
    AcquireCall string int
  | Connected ref int
  | ConnectRejected ref bool
  | AcquireCreated ref
  | CheckForConnection int
  | Release "ref option"
  | ErrorEvent ref string
  | EndEvent ref
  | QuitSettled ref bool
  | PingRejected ref
  | HealthCheckResume
  | ShutdownCall
  | Library ref bool bool

fun step :: "event \<Rightarrow> pool \<Rightarrow> pool" where
  "step (AcquireCall sfx now) w = snd (acquireConnection_call sfx now w)"
| "step (Connected c now) w =
     (if c \<in> set (connecting w)
      then createConnection_connected c now (library_connected c w) else w)"
| "step (ConnectRejected c replacement) w =
     (if c \<in> set (connecting w)
      then (if c \<in> set (awaiting w)
            then snd (acquireConnection_create_failed c (createConnection_failed c w))
            else if replacement then replacement_failed c w
            else createConnection_failed c w)
      else w)"
| "step (AcquireCreated c) w =
     (if c \<in> set (awaiting w) \<and> c \<notin> set (connecting w)
      then snd (acquireConnection_created c w) else w)"
| "step (CheckForConnection now) w = snd (checkForConnection now w)"
| "step (Release cl) w = releaseConnection cl w"
| "step (ErrorEvent c sfx) w = on_error c sfx w"
| "step (EndEvent c) w = removeConnection c w"
| "step (QuitSettled c ok) w =
     (if c \<in> set (quitting w) then settle_quit (\<lambda>_. ok) c w else w)"
| "step (PingRejected c) w = ping_rejected c w"
| "step HealthCheckResume w = healthCheck_resume w"
| "step ShutdownCall w = shutdown_begin w"
| "step (Library c opn rdy) w =
     w\<lparr>heap := (heap w)(c := (heap w c)\<lparr>isOpen := opn, isReady := rdy\<rparr>)\<rparr>"

fun run :: "event list \<Rightarrow> pool \<Rightarrow> pool" where
  "run [] w = w"
| "run (e # es) w = run es (step e w)"




section \<open>Predicates used in the properties\<close>

text \<open>
  A record whose creation is over: its client object exists and its \<open>connect()\<close> is not
  pending.
\<close>

definition settled :: "ref \<Rightarrow> pool \<Rightarrow> bool" where
  "settled c w = (c < next_client w \<and> c \<notin> set (connecting w))"


text \<open>
  A record out of circulation: its client object exists, its \<open>connect()\<close> has settled,
  it is marked unhealthy and it is not in \<open>available\<close>.
\<close>

definition retired :: "ref \<Rightarrow> pool \<Rightarrow> bool" where
  "retired c w =
     (c < next_client w \<and> c \<notin> set (connecting w) \<and> \<not> isHealthy (heap w c)
      \<and> c \<notin> set (availableConnections w))"

text \<open>
  What holds of the sets in every state a pool can reach: they are sets (no
  repetition) and disjoint; a tracked record is an existing client whose \<open>connect()\<close> has
  settled and that carries its connection id; a client that is connecting exists and
  was created under a non-empty name; a client an acquire is waiting for exists and is
  either still connecting or connected.
\<close>

definition well_formed :: "pool \<Rightarrow> bool" where
  "well_formed w =
     (distinct (availableConnections w) \<and> distinct (busyConnections w)
      \<and> set (availableConnections w) \<inter> set (busyConnections w) = {}
      \<and> (\<forall>c \<in> set (availableConnections w) \<union> set (busyConnections w).
            c < next_client w \<and> c \<notin> set (connecting w)
            \<and> truthy_id (connectionId (heap w c)))
      \<and> (\<forall>c \<in> set (connecting w). c < next_client w \<and> name (heap w c) \<noteq> [])
      \<and> (\<forall>c \<in> set (awaiting w).
            c < next_client w
            \<and> (c \<in> set (connecting w) \<or> truthy_id (connectionId (heap w c)))))"

section \<open>Example pools\<close>

text \<open>
  Every example is a pool built by the constructor and driven by events. With the
  default options the constructor starts the creation of clients 0 and 1.
\<close>

definition no_options :: options where
  "no_options =
     \<lparr>opt_maxConnections = None, opt_minConnections = None, opt_connectionTimeout = None,
      opt_retryDelay = None, opt_maxRetries = None\<rparr>"

definition started_pool :: pool where
  "started_pool = RedisPoolManager no_options (\<lambda>_. ''i'')"

text \<open>Both initial connections are established: clients 0 and 1 are available.\<close>

definition ready_pool :: pool where
  "ready_pool = run [Connected 0 1, Connected 1 1] started_pool"

text \<open>One acquire: client 0 is busy, client 1 available.\<close>

definition one_busy :: pool where
  "one_busy = run [AcquireCall ''a'' 2] ready_pool"

text \<open>Client 0 has been released: clients 1 and 0 are available.\<close>

definition one_available :: pool where
  "one_available = run [Release (Some 0)] one_busy"

text \<open>Client 0 is busy and its socket has stopped being ready (the library is reconnecting).\<close>

definition one_busy_not_ready :: pool where
  "one_busy_not_ready = run [Library 0 True False] one_busy"

text \<open>Two acquires: clients 0 and 1 are busy, nothing is available, 8 more may be created.\<close>

definition drained_pool :: pool where
  "drained_pool = run [AcquireCall ''a'' 2, AcquireCall ''b'' 2] ready_pool"


text \<open>A pool limited to two connections, ready, and then full after two acquires.\<close>

definition small_options :: options where
  "small_options = no_options\<lparr>opt_maxConnections := Some 2\<rparr>"

definition small_ready :: pool where
  "small_ready = run [Connected 0 1, Connected 1 1] (RedisPoolManager small_options (\<lambda>_. ''i''))"

definition full_pool :: pool where
  "full_pool = run [AcquireCall ''a'' 2, AcquireCall ''b'' 2] small_ready"

text \<open>A pool limited to three connections.\<close>

definition three_options :: options where
  "three_options = no_options\<lparr>opt_maxConnections := Some 3\<rparr>"

text \<open>A pool limited to one connection; minConnections keeps its default 2.\<close>

definition single_options :: options where
  "single_options = no_options\<lparr>opt_maxConnections := Some 1\<rparr>"

definition single_ready :: pool where
  "single_ready = run [Connected 0 1, Connected 1 1] (RedisPoolManager single_options (\<lambda>_. ''i''))"

section \<open>Properties of the constructor\<close>

lemma initializePool_loop_config:
  "maxConnections (initializePool_loop sfx i k w) = maxConnections w"
  "minConnections (initializePool_loop sfx i k w) = minConnections w"
  "connectionTimeout (initializePool_loop sfx i k w) = connectionTimeout w"
  "retryDelay (initializePool_loop sfx i k w) = retryDelay w"
  "maxRetries (initializePool_loop sfx i k w) = maxRetries w"
  by (induction sfx i k w rule: initializePool_loop.induct)
     (simp_all add: createConnection_begin_def Let_def)

text \<open>
  C10. An option supplied as 0 gives the same pool as the option omitted, the field
  holding its default (10, 2, 30000, 1000, 5); whatever the options are, the pool's
  minConnections is not 0.
\<close>

theorem zero_option_is_default:
  "RedisPoolManager (opts\<lparr>opt_maxConnections := Some 0\<rparr>) sfx
     = RedisPoolManager (opts\<lparr>opt_maxConnections := None\<rparr>) sfx
   \<and> RedisPoolManager (opts\<lparr>opt_minConnections := Some 0\<rparr>) sfx
     = RedisPoolManager (opts\<lparr>opt_minConnections := None\<rparr>) sfx
   \<and> RedisPoolManager (opts\<lparr>opt_connectionTimeout := Some 0\<rparr>) sfx
     = RedisPoolManager (opts\<lparr>opt_connectionTimeout := None\<rparr>) sfx
   \<and> RedisPoolManager (opts\<lparr>opt_retryDelay := Some 0\<rparr>) sfx
     = RedisPoolManager (opts\<lparr>opt_retryDelay := None\<rparr>) sfx
   \<and> RedisPoolManager (opts\<lparr>opt_maxRetries := Some 0\<rparr>) sfx
     = RedisPoolManager (opts\<lparr>opt_maxRetries := None\<rparr>) sfx
   \<and> maxConnections (RedisPoolManager (opts\<lparr>opt_maxConnections := Some 0\<rparr>) sfx) = 10
   \<and> minConnections (RedisPoolManager (opts\<lparr>opt_minConnections := Some 0\<rparr>) sfx) = 2
   \<and> connectionTimeout (RedisPoolManager (opts\<lparr>opt_connectionTimeout := Some 0\<rparr>) sfx) = 30000
   \<and> retryDelay (RedisPoolManager (opts\<lparr>opt_retryDelay := Some 0\<rparr>) sfx) = 1000
   \<and> maxRetries (RedisPoolManager (opts\<lparr>opt_maxRetries := Some 0\<rparr>) sfx) = 5
   \<and> minConnections (RedisPoolManager opts sfx) \<noteq> 0"
  by (simp add: RedisPoolManager_def initializePool_begin_def initializePool_loop_config
        constructor_fields_def or_default_def split: option.splits)

theorem zero_option_is_default_witness:
  "minConnections (RedisPoolManager (no_options\<lparr>opt_minConnections := Some 0\<rparr>) (\<lambda>_. ''x'')) = 2
   \<and> minConnections (RedisPoolManager no_options (\<lambda>_. ''x'')) \<noteq> 0"
  using zero_option_is_default [of no_options "\<lambda>_. ''x''"] by blast

section \<open>Evaluating the example pools\<close>

lemma started_pool_eq:
  "started_pool =
     \<lparr>maxConnections = 10, minConnections = 2, connectionTimeout = 30000,
      retryDelay = 1000, maxRetries = 5, availableConnections = [], busyConnections = [],
      isShuttingDown = False,
      stats = \<lparr>created = 0, destroyed = 0, acquired = 0, released = 0, errors = 0\<rparr>,
      heap = (\<lambda>_. new_client [])(0 := new_client ''redis_i'', Suc 0 := new_client ''redis_i''),
      next_client = Suc (Suc 0), connecting = [0, Suc 0], awaiting = [], quitting = [],
      console = []\<rparr>"
  by (simp add: started_pool_def RedisPoolManager_def initializePool_begin_def
        constructor_fields_def no_options_def or_default_def numeral_2_eq_2
        createConnection_begin_def)

lemma small_started_eq:
  "RedisPoolManager small_options (\<lambda>_. ''i'') =
     \<lparr>maxConnections = 2, minConnections = 2, connectionTimeout = 30000,
      retryDelay = 1000, maxRetries = 5, availableConnections = [], busyConnections = [],
      isShuttingDown = False,
      stats = \<lparr>created = 0, destroyed = 0, acquired = 0, released = 0, errors = 0\<rparr>,
      heap = (\<lambda>_. new_client [])(0 := new_client ''redis_i'', Suc 0 := new_client ''redis_i''),
      next_client = Suc (Suc 0), connecting = [0, Suc 0], awaiting = [], quitting = [],
      console = []\<rparr>"
  by (simp add: small_options_def RedisPoolManager_def initializePool_begin_def
        constructor_fields_def no_options_def or_default_def numeral_2_eq_2
        createConnection_begin_def)

lemma three_started_eq:
  "RedisPoolManager three_options (\<lambda>_. ''i'') =
     \<lparr>maxConnections = 3, minConnections = 2, connectionTimeout = 30000,
      retryDelay = 1000, maxRetries = 5, availableConnections = [], busyConnections = [],
      isShuttingDown = False,
      stats = \<lparr>created = 0, destroyed = 0, acquired = 0, released = 0, errors = 0\<rparr>,
      heap = (\<lambda>_. new_client [])(0 := new_client ''redis_i'', Suc 0 := new_client ''redis_i''),
      next_client = Suc (Suc 0), connecting = [0, Suc 0], awaiting = [], quitting = [],
      console = []\<rparr>"
  by (simp add: three_options_def RedisPoolManager_def initializePool_begin_def
        constructor_fields_def no_options_def or_default_def numeral_2_eq_2
        createConnection_begin_def)

lemma single_started_eq:
  "RedisPoolManager single_options (\<lambda>_. ''i'') =
     \<lparr>maxConnections = 1, minConnections = 2, connectionTimeout = 30000,
      retryDelay = 1000, maxRetries = 5, availableConnections = [], busyConnections = [],
      isShuttingDown = False,
      stats = \<lparr>created = 0, destroyed = 0, acquired = 0, released = 0, errors = 0\<rparr>,
      heap = (\<lambda>_. new_client [])(0 := new_client ''redis_i'', Suc 0 := new_client ''redis_i''),
      next_client = Suc (Suc 0), connecting = [0, Suc 0], awaiting = [], quitting = [],
      console = []\<rparr>"
  by (simp add: single_options_def RedisPoolManager_def initializePool_begin_def
        constructor_fields_def no_options_def or_default_def numeral_2_eq_2
        createConnection_begin_def)

lemmas example_defs =
  started_pool_eq small_started_eq three_started_eq single_started_eq single_ready_def
  ready_pool_def one_busy_def
  one_available_def one_busy_not_ready_def drained_pool_def small_ready_def full_pool_def
  acquireConnection_def acquireConnection_call_def createConnection_begin_def
  getTotalConnections_def acquireConnection_created_def createConnection_connected_def
  library_connected_def set_add_def set_delete_def releaseConnection_def truthy_id_def
  new_client_def createConnection_failed_def acquireConnection_create_failed_def
  acquireConnection_timeout_def destroyConnection_begin_def take_available_def
  numeral_2_eq_2 numeral_3_eq_3

section \<open>Properties of release\<close>

lemma destroyConnection_begin_sets:
  "availableConnections (destroyConnection_begin (Some c) w) = set_delete c (availableConnections w)"
  "busyConnections (destroyConnection_begin (Some c) w) = set_delete c (busyConnections w)"
  by (simp_all add: destroyConnection_begin_def Let_def)

text \<open>
  C3, as the spec states it, fails: a busy record whose healthy flag is true is not
  returned to \<open>available\<close> by release when its handle is not ready. Client 0 of
  \<open>one_busy_not_ready\<close> is busy and healthy; release destroys it (its \<open>quit()\<close> is
  pending afterwards) and \<open>available\<close> does not get it.
\<close>

theorem release_healthy_not_ready_counterexample:
  "0 \<in> set (busyConnections one_busy_not_ready)
   \<and> isHealthy (heap one_busy_not_ready 0)
   \<and> truthy_id (connectionId (heap one_busy_not_ready 0))
   \<and> 0 \<notin> set (availableConnections (releaseConnection (Some 0) one_busy_not_ready))
   \<and> quitting (releaseConnection (Some 0) one_busy_not_ready) = [0]"
  by (simp add: example_defs)

text \<open>
  C3, amended. For a record tracked as busy (it carries its connection id, as every
  tracked record of a reachable pool does, see the section on reachable pools),
  release removes it from \<open>busy\<close> and then:
  when the record is healthy and its handle is ready it is added to \<open>available\<close>;
  otherwise it is handed to destroyConnection and is not in \<open>available\<close> afterwards.
  An unhealthy record is therefore never placed back into \<open>available\<close> by release.
\<close>

theorem release_busy:
  assumes "c \<in> set (busyConnections w)" and "truthy_id (connectionId (heap w c))"
  shows "c \<notin> set (busyConnections (releaseConnection (Some c) w))
    \<and> (isHealthy (heap w c) \<and> isReady (heap w c) \<longrightarrow>
         releaseConnection (Some c) w =
           w\<lparr>stats := (stats w)\<lparr>released := released (stats w) + 1\<rparr>,
             busyConnections := set_delete c (busyConnections w),
             availableConnections := set_add c (availableConnections w)\<rparr>
         \<and> c \<in> set (availableConnections (releaseConnection (Some c) w)))
    \<and> (\<not> (isHealthy (heap w c) \<and> isReady (heap w c)) \<longrightarrow>
         releaseConnection (Some c) w =
           destroyConnection_begin (Some c)
             (w\<lparr>stats := (stats w)\<lparr>released := released (stats w) + 1\<rparr>,
                busyConnections := set_delete c (busyConnections w)\<rparr>)
         \<and> c \<notin> set (availableConnections (releaseConnection (Some c) w)))"
  using assms
  by (simp add: releaseConnection_def Let_def destroyConnection_begin_sets
        set_delete_def set_add_def)

theorem release_busy_witness:
  "0 \<in> set (busyConnections one_busy) \<and> truthy_id (connectionId (heap one_busy 0))
   \<and> 0 \<notin> set (busyConnections (releaseConnection (Some 0) one_busy))
   \<and> 0 \<in> set (availableConnections (releaseConnection (Some 0) one_busy))
   \<and> 0 \<in> set (busyConnections one_busy_not_ready)
   \<and> 0 \<notin> set (busyConnections (releaseConnection (Some 0) one_busy_not_ready))
   \<and> 0 \<notin> set (availableConnections (releaseConnection (Some 0) one_busy_not_ready))"
proof -
  have b: "0 \<in> set (busyConnections one_busy)" by (simp add: example_defs)
  have i: "truthy_id (connectionId (heap one_busy 0))" by (simp add: example_defs)
  have h: "isHealthy (heap one_busy 0) \<and> isReady (heap one_busy 0)" by (simp add: example_defs)
  have b': "0 \<in> set (busyConnections one_busy_not_ready)" by (simp add: example_defs)
  have i': "truthy_id (connectionId (heap one_busy_not_ready 0))" by (simp add: example_defs)
  have h': "\<not> isReady (heap one_busy_not_ready 0)" by (simp add: example_defs)
  from release_busy [OF b i] release_busy [OF b' i'] h h' b i b' show ?thesis by blast
qed

text \<open>
  C5, as the spec states it, fails: releasing a record that is not busy a second time
  counts in \<open>released\<close>. Client 0 of \<open>one_available\<close> has been released already.
\<close>

theorem release_untracked_counterexample:
  "0 \<notin> set (busyConnections one_available)
   \<and> released (stats (releaseConnection (Some 0) one_available))
       = released (stats one_available) + 1"
  by (simp add: example_defs)

text \<open>
  C5, amended. Releasing a record that is not tracked as busy changes neither set and no
  counter other than \<open>released\<close>; \<open>released\<close> is incremented by one when the record
  carries a connection id and is unchanged when it carries none or the argument is null.
\<close>

theorem release_untracked:
  assumes "c \<notin> set (busyConnections w)"
  shows "releaseConnection (Some c) w =
           (if truthy_id (connectionId (heap w c))
            then w\<lparr>stats := (stats w)\<lparr>released := released (stats w) + 1\<rparr>\<rparr>
            else w)
         \<and> releaseConnection None w = w
         \<and> availableConnections (releaseConnection (Some c) w) = availableConnections w
         \<and> busyConnections (releaseConnection (Some c) w) = busyConnections w
         \<and> created (stats (releaseConnection (Some c) w)) = created (stats w)
         \<and> destroyed (stats (releaseConnection (Some c) w)) = destroyed (stats w)
         \<and> acquired (stats (releaseConnection (Some c) w)) = acquired (stats w)
         \<and> errors (stats (releaseConnection (Some c) w)) = errors (stats w)"
  using assms by (simp add: releaseConnection_def Let_def)

theorem release_untracked_witness:
  "0 \<notin> set (busyConnections one_available)
   \<and> availableConnections (releaseConnection (Some 0) one_available) = [1, 0]
   \<and> busyConnections (releaseConnection (Some 0) one_available) = []
   \<and> destroyed (stats (releaseConnection (Some 0) one_available)) = 0"
proof -
  have b: "0 \<notin> set (busyConnections one_available)" by (simp add: example_defs)
  have a: "availableConnections one_available = [1, 0]" by (simp add: example_defs)
  have u: "busyConnections one_available = []" by (simp add: example_defs)
  have d: "destroyed (stats one_available) = 0" by (simp add: example_defs)
  from release_untracked [OF b] a u d b show ?thesis by simp
qed

section \<open>The acquired counter\<close>

text \<open>
  C9. A call of acquireConnection on a pool that is not shutting down increments
  \<open>acquired\<close>, at the call and still when the call has settled, whatever the outcome: a
  connection, a creation error or a timeout. A failed acquire therefore changes the
  statistics.
\<close>

theorem acquired_counts_attempts:
  assumes "\<not> isShuttingDown w"
  shows "acquired (stats (snd (acquireConnection_call sfx now w))) = acquired (stats w) + 1
   \<and> acquired (stats (snd (acquireConnection sfx now connect_ok w))) = acquired (stats w) + 1
   \<and> stats (snd (acquireConnection sfx now connect_ok w)) \<noteq> stats w"
proof -
  have a: "acquired (stats (snd (acquireConnection_call sfx now w))) = acquired (stats w) + 1"
    using assms
    by (simp add: acquireConnection_call_def Let_def take_available_def
          createConnection_begin_def split: list.splits)
  have b: "acquired (stats (snd (acquireConnection sfx now connect_ok w))) = acquired (stats w) + 1"
    using assms
    by (simp add: acquireConnection_def acquireConnection_call_def Let_def take_available_def
          createConnection_begin_def acquireConnection_created_def
          createConnection_connected_def library_connected_def
          acquireConnection_create_failed_def createConnection_failed_def
          acquireConnection_timeout_def split: list.splits)
  from b have "stats (snd (acquireConnection sfx now connect_ok w)) \<noteq> stats w" by auto
  with a b show ?thesis by simp
qed

text \<open>
  Two failed attempts: a creation error on the drained pool (three attempts counted,
  two connections ever created), and a timeout on the full pool (three attempts
  counted, two connections ever handed out).
\<close>

theorem acquired_counts_attempts_witness:
  "\<not> isShuttingDown drained_pool
   \<and> fst (acquireConnection ''c'' 3 False drained_pool) = Threw FailedToCreateNew
   \<and> acquired (stats (snd (acquireConnection ''c'' 3 False drained_pool))) = 3
   \<and> created (stats (snd (acquireConnection ''c'' 3 False drained_pool))) = 2
   \<and> fst (acquireConnection ''c'' 3 True full_pool) = Threw TimeoutWaiting
   \<and> acquired (stats (snd (acquireConnection ''c'' 3 True full_pool))) = 3
   \<and> created (stats (snd (acquireConnection ''c'' 3 True full_pool))) = 2"
proof -
  have n: "\<not> isShuttingDown drained_pool" by (simp add: example_defs)
  have a: "acquired (stats drained_pool) = 2" by (simp add: example_defs)
  have r: "fst (acquireConnection ''c'' 3 False drained_pool) = Threw FailedToCreateNew"
    by (simp add: example_defs)
  have c: "created (stats (snd (acquireConnection ''c'' 3 False drained_pool))) = 2"
    by (simp add: example_defs)
  have f: "fst (acquireConnection ''c'' 3 True full_pool) = Threw TimeoutWaiting
     \<and> acquired (stats (snd (acquireConnection ''c'' 3 True full_pool))) = 3
     \<and> created (stats (snd (acquireConnection ''c'' 3 True full_pool))) = 2"
    by (simp add: example_defs)
  from acquired_counts_attempts [OF n, of "''c''" 3 False] n a r c f
  show ?thesis by simp
qed

section \<open>Properties of destruction\<close>

lemmas destroy_defs =
  destroyConnection_def settle_quit_def destroyConnection_quit_resolved_def
  destroyConnection_quit_rejected_def library_closed_def

text \<open>
  C4, as the spec states it, fails twice on client 0 of \<open>one_available\<close>, whose handle
  is open. When its close fails, destroyConnection settles without an error and
  \<open>destroyed\<close> is not incremented. When it is destroyed twice and both closes succeed,
  \<open>destroyed\<close> is incremented twice for the one record.
\<close>

theorem destroy_counter_counterexample:
  "isOpen (heap one_available 0)
   \<and> fst (destroyConnection (\<lambda>_. False) (Some 0) one_available) = None
   \<and> destroyed (stats (snd (destroyConnection (\<lambda>_. False) (Some 0) one_available)))
       = destroyed (stats one_available)
   \<and> destroyed (stats (snd (destroyConnection (\<lambda>_. True) (Some 0)
         (snd (destroyConnection (\<lambda>_. True) (Some 0) one_available)))))
       = destroyed (stats one_available) + 2"
  by (simp add: example_defs destroy_defs)

text \<open>
  C4, amended. destroyConnection never rejects: a failing close is caught and reported.
  It removes the record from both sets, and destroying the record again changes
  neither set. Each call increments \<open>destroyed\<close> by one when the handle is not open or
  its close succeeds, and leaves it unchanged when the close fails. A null argument
  changes nothing.
\<close>

theorem destroy_settles:
  "fst (destroyConnection quit_ok (Some c) w) = None
   \<and> availableConnections (snd (destroyConnection quit_ok (Some c) w))
       = set_delete c (availableConnections w)
   \<and> busyConnections (snd (destroyConnection quit_ok (Some c) w))
       = set_delete c (busyConnections w)
   \<and> c \<notin> set (availableConnections (snd (destroyConnection quit_ok (Some c) w)))
   \<and> c \<notin> set (busyConnections (snd (destroyConnection quit_ok (Some c) w)))
   \<and> availableConnections (snd (destroyConnection quit_ok' (Some c)
         (snd (destroyConnection quit_ok (Some c) w))))
       = availableConnections (snd (destroyConnection quit_ok (Some c) w))
   \<and> busyConnections (snd (destroyConnection quit_ok' (Some c)
         (snd (destroyConnection quit_ok (Some c) w))))
       = busyConnections (snd (destroyConnection quit_ok (Some c) w))
   \<and> destroyed (stats (snd (destroyConnection quit_ok (Some c) w)))
       = destroyed (stats w) + (if isOpen (heap w c) \<and> \<not> quit_ok c then 0 else 1)
   \<and> console (snd (destroyConnection quit_ok (Some c) w))
       = console w @ (if isOpen (heap w c) \<and> \<not> quit_ok c then [ErrorDestroying c] else [])
   \<and> destroyConnection quit_ok None w = (None, w)"
  by (simp add: destroy_defs destroyConnection_begin_def Let_def set_delete_def)

theorem destroy_settles_witness:
  "fst (destroyConnection (\<lambda>_. True) (Some 0) one_available) = None
   \<and> availableConnections (snd (destroyConnection (\<lambda>_. True) (Some 0) one_available)) = [1]
   \<and> destroyed (stats (snd (destroyConnection (\<lambda>_. True) (Some 0) one_available))) = 1
   \<and> console (snd (destroyConnection (\<lambda>_. False) (Some 0) one_available)) = [ErrorDestroying 0]"
proof -
  have a: "availableConnections one_available = [1, 0]" by (simp add: example_defs)
  have d: "destroyed (stats one_available) = 0" by (simp add: example_defs)
  have l: "console one_available = []" by (simp add: example_defs)
  have opn: "isOpen (heap one_available 0)" by (simp add: example_defs)
  from destroy_settles [of "\<lambda>_. True" 0 one_available]
       destroy_settles [of "\<lambda>_. False" 0 one_available] a d l opn
  show ?thesis by (simp add: set_delete_def)
qed

section \<open>Strategy 2 of acquire\<close>

text \<open>
  C1, as the spec states it, fails. On the drained pool (clients 0 and 1 busy) an
  acquire takes strategy 2 and is suspended while client 2 connects. When
  createConnection has finished, and before the acquirer runs again, client 2 is in
  \<open>available\<close>; another acquire called at that point gets client 2 through strategy 1.
\<close>

theorem grow_visible_in_available_counterexample:
  "fst (acquireConnection_call ''c'' 3 drained_pool) = AwaitCreate 2
   \<and> 2 \<in> set (availableConnections
         (step (Connected 2 4) (snd (acquireConnection_call ''c'' 3 drained_pool))))
   \<and> fst (acquireConnection_call ''d'' 5
         (step (Connected 2 4) (snd (acquireConnection_call ''c'' 3 drained_pool)))) = Returned 2"
  by (simp add: example_defs)

text \<open>
  C1, amended. In an acquire that takes strategy 2 (pool not shutting down, nothing
  available, total below maxConnections) the new record \<open>c\<close> is not in \<open>available\<close>
  while it connects (\<open>w1\<close>); createConnection puts it into \<open>available\<close> once it is connected
  (\<open>w2\<close>); the acquirer, when it runs next, deletes it from \<open>available\<close>, adds it to
  \<open>busy\<close> and returns it (\<open>w3\<close>). So when the acquire returns, the record is busy and
  not available, and between its creation and that return there is a state in which
  it is in \<open>available\<close>.
\<close>

theorem grow_through_available:
  fixes w :: pool and sfx :: string and now now' :: int
  defines "c \<equiv> next_client w"
  defines "w1 \<equiv> snd (acquireConnection_call sfx now w)"
  defines "w2 \<equiv> createConnection_connected c now' (library_connected c w1)"
  defines "w3 \<equiv> snd (acquireConnection_created c w2)"
  assumes "\<not> isShuttingDown w" and "availableConnections w = []"
    and "getTotalConnections w < maxConnections w"
  shows "fst (acquireConnection_call sfx now w) = AwaitCreate c
    \<and> c \<notin> set (availableConnections w1)
    \<and> c \<in> set (availableConnections w2)
    \<and> fst (acquireConnection_created c w2) = Returned c
    \<and> c \<in> set (busyConnections w3)
    \<and> c \<notin> set (availableConnections w3)"
  using assms(5-7) unfolding c_def w1_def w2_def w3_def
  by (simp add: acquireConnection_call_def Let_def createConnection_begin_def
        getTotalConnections_def createConnection_connected_def library_connected_def
        acquireConnection_created_def set_add_def set_delete_def)

theorem grow_through_available_witness:
  "\<not> isShuttingDown drained_pool \<and> availableConnections drained_pool = []
   \<and> getTotalConnections drained_pool < maxConnections drained_pool
   \<and> fst (acquireConnection_call ''c'' 3 drained_pool) = AwaitCreate 2
   \<and> 2 \<in> set (busyConnections (snd (acquireConnection_created 2
        (createConnection_connected 2 4
           (library_connected 2 (snd (acquireConnection_call ''c'' 3 drained_pool)))))))
   \<and> 2 \<notin> set (availableConnections (snd (acquireConnection_created 2
        (createConnection_connected 2 4
           (library_connected 2 (snd (acquireConnection_call ''c'' 3 drained_pool)))))))"
proof -
  have a: "\<not> isShuttingDown drained_pool" by (simp add: example_defs)
  have b: "availableConnections drained_pool = []" by (simp add: example_defs)
  have c: "getTotalConnections drained_pool < maxConnections drained_pool"
    by (simp add: example_defs)
  have n: "next_client drained_pool = 2" by (simp add: example_defs)
  from grow_through_available [OF a b c, of "''c''" 3 4] a b c n show ?thesis by simp
qed

section \<open>The eviction loop\<close>

lemma destroyConnection_begin_frame:
  "heap (destroyConnection_begin cl w) = heap w"
  "isShuttingDown (destroyConnection_begin cl w) = isShuttingDown w"
  "next_client (destroyConnection_begin cl w) = next_client w"
  "connecting (destroyConnection_begin cl w) = connecting w"
  "console (destroyConnection_begin cl w) = console w"
  "maxConnections (destroyConnection_begin cl w) = maxConnections w"
  "minConnections (destroyConnection_begin cl w) = minConnections w"
  by (simp_all add: destroyConnection_begin_def Let_def split: option.splits)

lemma destroyConnection_begin_counts:
  "destroyed (stats (destroyConnection_begin (Some c) w)) =
     destroyed (stats w) + (if isOpen (heap w c) then 0 else 1)"
  "quitting (destroyConnection_begin (Some c) w) =
     quitting w @ (if isOpen (heap w c) then [c] else [])"
  by (simp_all add: destroyConnection_begin_def Let_def)

text \<open>
  The eviction loop over a list \<open>xs\<close>: it leaves the store alone, so the health of a
  record is the same in every round.
\<close>

lemma resume_fold:
  "heap (fold (\<lambda>c v. if \<not> isHealthy (heap v c) then destroyConnection_begin (Some c) v else v) xs w)
     = heap w"
  "availableConnections
     (fold (\<lambda>c v. if \<not> isHealthy (heap v c) then destroyConnection_begin (Some c) v else v) xs w)
     = filter (\<lambda>x. \<not> (x \<in> set xs \<and> \<not> isHealthy (heap w x))) (availableConnections w)"
  "busyConnections
     (fold (\<lambda>c v. if \<not> isHealthy (heap v c) then destroyConnection_begin (Some c) v else v) xs w)
     = filter (\<lambda>x. \<not> (x \<in> set xs \<and> \<not> isHealthy (heap w x))) (busyConnections w)"
  "destroyed (stats
     (fold (\<lambda>c v. if \<not> isHealthy (heap v c) then destroyConnection_begin (Some c) v else v) xs w))
     = destroyed (stats w)
       + length (filter (\<lambda>c. \<not> isHealthy (heap w c) \<and> \<not> isOpen (heap w c)) xs)"
  "quitting
     (fold (\<lambda>c v. if \<not> isHealthy (heap v c) then destroyConnection_begin (Some c) v else v) xs w)
     = quitting w @ filter (\<lambda>c. \<not> isHealthy (heap w c) \<and> isOpen (heap w c)) xs"
proof (induction xs arbitrary: w)
  case Nil
  { case 1 show ?case by simp }
  { case 2 show ?case by simp }
  { case 3 show ?case by simp }
  { case 4 show ?case by simp }
  { case 5 show ?case by simp }
next
  case (Cons a xs)
  { case 1 show ?case by (simp add: Cons.IH destroyConnection_begin_frame) }
  { case 2 show ?case
      by (auto simp add: Cons.IH destroyConnection_begin_frame destroyConnection_begin_sets
            set_delete_def removeAll_filter_not_eq intro!: filter_cong) }
  { case 3 show ?case
      by (auto simp add: Cons.IH destroyConnection_begin_frame destroyConnection_begin_sets
            set_delete_def removeAll_filter_not_eq intro!: filter_cong) }
  { case 4 show ?case
      by (simp add: Cons.IH destroyConnection_begin_frame destroyConnection_begin_counts) }
  { case 5 show ?case
      by (simp add: Cons.IH destroyConnection_begin_frame destroyConnection_begin_counts) }
qed

section \<open>The size bound\<close>








text \<open>The four ways a call of acquireConnection can go.\<close>

lemma acquireConnection_call_cases:
  "(isShuttingDown w \<and> acquireConnection_call sfx now w = (Threw PoolShuttingDown, w))
   \<or> (\<exists>c rest. \<not> isShuttingDown w \<and> availableConnections w = c # rest \<and>
         acquireConnection_call sfx now w =
           (Returned c,
            take_available c now (w\<lparr>stats := (stats w)\<lparr>acquired := acquired (stats w) + 1\<rparr>\<rparr>)))
   \<or> (\<not> isShuttingDown w \<and> availableConnections w = []
        \<and> getTotalConnections w < maxConnections w \<and>
         acquireConnection_call sfx now w =
           (AwaitCreate (next_client w),
            (snd (createConnection_begin sfx
                   (w\<lparr>stats := (stats w)\<lparr>acquired := acquired (stats w) + 1\<rparr>\<rparr>)))
            \<lparr>awaiting := awaiting w @ [next_client w]\<rparr>))
   \<or> (\<not> isShuttingDown w \<and> availableConnections w = []
        \<and> \<not> getTotalConnections w < maxConnections w \<and>
         acquireConnection_call sfx now w =
           (Waiting, w\<lparr>stats := (stats w)\<lparr>acquired := acquired (stats w) + 1\<rparr>\<rparr>))"
  by (cases "availableConnections w")
     (auto simp: acquireConnection_call_def Let_def getTotalConnections_def
        createConnection_begin_def)


lemma settle_quit_frame:
  "availableConnections (settle_quit q c w) = availableConnections w"
  "busyConnections (settle_quit q c w) = busyConnections w"
  "maxConnections (settle_quit q c w) = maxConnections w"
  "isShuttingDown (settle_quit q c w) = isShuttingDown w"
  by (simp_all add: settle_quit_def destroyConnection_quit_resolved_def
        destroyConnection_quit_rejected_def library_closed_def)





section \<open>Properties of shutdown\<close>

lemma shutdown_fold:
  "availableConnections (fold (\<lambda>c. destroyConnection_begin (Some c)) xs w)
     = filter (\<lambda>x. x \<notin> set xs) (availableConnections w)"
  "busyConnections (fold (\<lambda>c. destroyConnection_begin (Some c)) xs w)
     = filter (\<lambda>x. x \<notin> set xs) (busyConnections w)"
  "isShuttingDown (fold (\<lambda>c. destroyConnection_begin (Some c)) xs w) = isShuttingDown w"
  "heap (fold (\<lambda>c. destroyConnection_begin (Some c)) xs w) = heap w"
  "next_client (fold (\<lambda>c. destroyConnection_begin (Some c)) xs w) = next_client w"
  "connecting (fold (\<lambda>c. destroyConnection_begin (Some c)) xs w) = connecting w"
proof (induction xs arbitrary: w)
  case Nil
  { case 1 show ?case by simp }
  { case 2 show ?case by simp }
  { case 3 show ?case by simp }
  { case 4 show ?case by simp }
  { case 5 show ?case by simp }
  { case 6 show ?case by simp }
next
  case (Cons a xs)
  { case 1 show ?case
      by (auto simp add: Cons.IH destroyConnection_begin_sets set_delete_def
            removeAll_filter_not_eq intro!: filter_cong) }
  { case 2 show ?case
      by (auto simp add: Cons.IH destroyConnection_begin_sets set_delete_def
            removeAll_filter_not_eq intro!: filter_cong) }
  { case 3 show ?case by (simp add: Cons.IH destroyConnection_begin_frame) }
  { case 4 show ?case by (simp add: Cons.IH destroyConnection_begin_frame) }
  { case 5 show ?case by (simp add: Cons.IH destroyConnection_begin_frame) }
  { case 6 show ?case by (simp add: Cons.IH destroyConnection_begin_frame) }
qed

lemma shutdown_begin_empty:
  "availableConnections (shutdown_begin w) = []"
  "busyConnections (shutdown_begin w) = []"
  "isShuttingDown (shutdown_begin w)"
  by (simp_all add: shutdown_begin_def Let_def shutdown_fold)

lemma settle_fold:
  "availableConnections (fold (settle_quit q) xs w) = availableConnections w"
  "busyConnections (fold (settle_quit q) xs w) = busyConnections w"
  "isShuttingDown (fold (settle_quit q) xs w) = isShuttingDown w"
  by (induction xs arbitrary: w) (simp_all add: settle_quit_frame)

lemma shutdown_empty:
  "availableConnections (shutdown q w) = []"
  "busyConnections (shutdown q w) = []"
  "isShuttingDown (shutdown q w)"
  by (simp_all add: shutdown_def settle_fold shutdown_begin_empty)

lemma resume_fold_frame:
  "isShuttingDown
     (fold (\<lambda>c v. if \<not> isHealthy (heap v c) then destroyConnection_begin (Some c) v else v) xs w)
     = isShuttingDown w"
  "next_client
     (fold (\<lambda>c v. if \<not> isHealthy (heap v c) then destroyConnection_begin (Some c) v else v) xs w)
     = next_client w"
  "connecting
     (fold (\<lambda>c v. if \<not> isHealthy (heap v c) then destroyConnection_begin (Some c) v else v) xs w)
     = connecting w"
  by (induction xs arbitrary: w) (simp_all add: destroyConnection_begin_frame)








section \<open>Properties of the error handler\<close>

lemma handleConnectionError_fields:
  "availableConnections (handleConnectionError c sfx w) = set_delete c (availableConnections w)"
  "busyConnections (handleConnectionError c sfx w) = set_delete c (busyConnections w)"
  "stats (handleConnectionError c sfx w) = stats w"
  "console (handleConnectionError c sfx w) = console w"
  "next_client (handleConnectionError c sfx w) =
     (if int (length (set_delete c (availableConnections w)))
           + int (length (set_delete c (busyConnections w))) < minConnections w
      then Suc (next_client w) else next_client w)"
  "connecting (handleConnectionError c sfx w) =
     connecting w @
     (if int (length (set_delete c (availableConnections w)))
           + int (length (set_delete c (busyConnections w))) < minConnections w
      then [next_client w] else [])"
  "x \<noteq> next_client w \<Longrightarrow>
     isHealthy (heap (handleConnectionError c sfx w) x) = (x \<noteq> c \<and> isHealthy (heap w x))"
  by (auto simp add: handleConnectionError_def Let_def createConnection_begin_def
        getTotalConnections_def set_delete_def)

text \<open>No event brings a retired record back.\<close>

lemma step_retired:
  assumes "retired c w"
  shows "retired c (step e w)"
proof (cases e)
  case (AcquireCall sfx now)
  with assms show ?thesis
    by (auto simp add: retired_def acquireConnection_call_def Let_def take_available_def
          createConnection_begin_def set_delete_def split: list.splits)
next
  case (Connected c' now)
  with assms show ?thesis
    by (auto simp add: retired_def createConnection_connected_def library_connected_def
          set_add_def)
next
  case (Release cl)
  with assms show ?thesis
    by (auto simp add: retired_def releaseConnection_def Let_def destroyConnection_begin_frame
          destroyConnection_begin_sets set_delete_def set_add_def split: option.splits)
next
  case (ErrorEvent c' sfx)
  with assms show ?thesis
    by (auto simp add: retired_def on_error_def handleConnectionError_fields set_delete_def)
next
  case HealthCheckResume
  with assms show ?thesis
    by (simp add: retired_def healthCheck_resume_def resume_fold resume_fold_frame)
next
  case ShutdownCall
  with assms show ?thesis by (simp add: retired_def shutdown_begin_def Let_def shutdown_fold)
next
  case (QuitSettled c ok)
  with assms show ?thesis
    by (auto simp add: retired_def settle_quit_def destroyConnection_quit_resolved_def
          destroyConnection_quit_rejected_def library_closed_def)
qed (use assms in \<open>auto simp add: retired_def replacement_failed_def createConnection_failed_def
      acquireConnection_created_def acquireConnection_create_failed_def checkForConnection_def take_available_def
      removeConnection_def ping_rejected_def set_delete_def Let_def split: list.splits\<close>)

lemma run_retired: "retired c w \<Longrightarrow> retired c (run evs w)"
  by (induction evs arbitrary: w) (simp_all add: step_retired)






section \<open>Pools reachable from the constructor\<close>

text \<open>
  Every event keeps a pool well formed, and the constructor builds a well-formed pool.
  So in every state of a real pool the lists are sets, no record is both available and
  busy, and every tracked record carries its connection id.
\<close>

lemma wf_createConnection_begin:
  assumes "well_formed w"
  shows "well_formed (snd (createConnection_begin sfx w))"
  using assms unfolding well_formed_def createConnection_begin_def Let_def
  by (auto simp add: less_Suc_eq new_client_def)

lemma wf_destroyConnection_begin:
  assumes "well_formed w"
  shows "well_formed (destroyConnection_begin cl w)"
  using assms unfolding well_formed_def destroyConnection_begin_def Let_def set_delete_def
  by (auto split: option.splits simp: distinct_removeAll)

lemma wf_take_available:
  assumes "well_formed w" "availableConnections w = c # rest"
  shows "well_formed (take_available c now w)"
  using assms unfolding well_formed_def take_available_def set_delete_def set_add_def
  by (auto simp: distinct_removeAll)

lemma wf_stats: "well_formed (w\<lparr>stats := s\<rparr>) = well_formed w"
  by (simp add: well_formed_def)

lemma wf_console: "well_formed (w\<lparr>console := s\<rparr>) = well_formed w"
  by (simp add: well_formed_def)

lemma wf_quitting: "well_formed (w\<lparr>quitting := s\<rparr>) = well_formed w"
  by (simp add: well_formed_def)

lemma wf_acquireConnection_call:
  assumes "well_formed w"
  shows "well_formed (snd (acquireConnection_call sfx now w))"
proof -
  let ?w1 = "w\<lparr>stats := (stats w)\<lparr>acquired := acquired (stats w) + 1\<rparr>\<rparr>"
  have w1: "well_formed ?w1" using assms by (simp add: wf_stats)
  consider
    (closed) "acquireConnection_call sfx now w = (Threw PoolShuttingDown, w)"
  | (reuse) c rest where "availableConnections w = c # rest"
      "acquireConnection_call sfx now w = (Returned c, take_available c now ?w1)"
  | (grow) "acquireConnection_call sfx now w
         = (AwaitCreate (next_client w),
            (snd (createConnection_begin sfx ?w1))\<lparr>awaiting := awaiting w @ [next_client w]\<rparr>)"
  | (wait) "acquireConnection_call sfx now w = (Waiting, ?w1)"
    using acquireConnection_call_cases [of w sfx now] by blast
  then show ?thesis
  proof cases
    case closed
    with assms show ?thesis by simp
  next
    case reuse
    from wf_take_available [OF w1, of c rest now] reuse show ?thesis by simp
  next
    case grow
    have "well_formed (snd (createConnection_begin sfx ?w1))"
      by (rule wf_createConnection_begin [OF w1])
    then have "well_formed ((snd (createConnection_begin sfx ?w1))\<lparr>awaiting := awaiting w @ [next_client w]\<rparr>)"
      using assms unfolding well_formed_def createConnection_begin_def Let_def
      by (auto simp add: less_Suc_eq)
    with grow show ?thesis by simp
  next
    case wait
    with w1 show ?thesis by simp
  qed
qed

lemma wf_releaseConnection:
  assumes "well_formed w"
  shows "well_formed (releaseConnection cl w)"
proof (cases cl)
  case None
  with assms show ?thesis by (simp add: releaseConnection_def)
next
  case (Some c)
  let ?w1 = "w\<lparr>stats := (stats w)\<lparr>released := released (stats w) + 1\<rparr>\<rparr>"
  let ?w2 = "?w1\<lparr>busyConnections := set_delete c (busyConnections ?w1)\<rparr>"
  have w1: "well_formed ?w1" using assms by (simp add: wf_stats)
  have w2: "well_formed ?w2"
    using assms unfolding well_formed_def set_delete_def by (auto simp: distinct_removeAll)
  have w3: "c \<in> set (busyConnections w) \<Longrightarrow>
      well_formed (?w2\<lparr>availableConnections := set_add c (availableConnections ?w2)\<rparr>)"
    using assms unfolding well_formed_def set_delete_def set_add_def
    by (auto simp: distinct_removeAll)
  from w1 w2 w3 wf_destroyConnection_begin [OF w2, of "Some c"] Some assms
  show ?thesis by (simp add: releaseConnection_def Let_def)
qed

lemma wf_handleConnectionError:
  assumes "well_formed w"
  shows "well_formed (handleConnectionError c sfx w)"
proof -
  let ?w3 = "w\<lparr>heap := (heap w)(c := (heap w c)\<lparr>isHealthy := False\<rparr>),
               busyConnections := set_delete c (busyConnections w),
               availableConnections := set_delete c (availableConnections w)\<rparr>"
  have w3: "well_formed ?w3"
    using assms unfolding well_formed_def set_delete_def by (auto simp: distinct_removeAll)
  have e: "handleConnectionError c sfx w =
     (if getTotalConnections ?w3 < minConnections ?w3 then snd (createConnection_begin sfx ?w3) else ?w3)"
    by (simp add: handleConnectionError_def Let_def set_delete_def)
  from w3 wf_createConnection_begin [OF w3, of sfx] show ?thesis unfolding e by simp
qed

lemma wf_resume_fold:
  "well_formed w \<Longrightarrow> well_formed (fold (\<lambda>c v. if \<not> isHealthy (heap v c) then destroyConnection_begin (Some c) v else v) xs w)"
  by (induction xs arbitrary: w) (simp_all add: wf_destroyConnection_begin)

lemma wf_shutdown_fold:
  "well_formed w \<Longrightarrow> well_formed (fold (\<lambda>c. destroyConnection_begin (Some c)) xs w)"
  by (induction xs arbitrary: w) (simp_all add: wf_destroyConnection_begin)

lemma wf_step:
  assumes "well_formed w"
  shows "well_formed (step e w)"
proof (cases e)
  case (AcquireCall sfx now)
  with wf_acquireConnection_call [OF assms] show ?thesis by simp
next
  case (Connected c now)
  with assms show ?thesis
    unfolding well_formed_def
    by (auto simp add: createConnection_connected_def library_connected_def set_add_def truthy_id_def)
next
  case (ConnectRejected c repl)
  with assms show ?thesis
    unfolding well_formed_def
    by (auto simp add: replacement_failed_def createConnection_failed_def acquireConnection_create_failed_def Let_def)
next
  case (AcquireCreated c)
  with assms show ?thesis
    unfolding well_formed_def
    by (auto simp add: acquireConnection_created_def set_add_def set_delete_def distinct_removeAll)
next
  case (CheckForConnection now)
  show ?thesis
  proof (cases "availableConnections w")
    case Nil
    with assms CheckForConnection show ?thesis by (simp add: checkForConnection_def)
  next
    case (Cons c rest)
    with wf_take_available [OF assms Cons, of now] CheckForConnection show ?thesis
      by (simp add: checkForConnection_def)
  qed
next
  case (Release cl)
  with wf_releaseConnection [OF assms] show ?thesis by simp
next
  case (ErrorEvent c sfx)
  have "well_formed (w\<lparr>console := console w @ [ConnectionError c],
          stats := (stats w)\<lparr>errors := errors (stats w) + 1\<rparr>\<rparr>)"
    using assms by (simp add: well_formed_def)
  from wf_handleConnectionError [OF this] ErrorEvent show ?thesis by (simp add: on_error_def)
next
  case (EndEvent c)
  with assms show ?thesis
    by (auto simp: well_formed_def removeConnection_def set_delete_def distinct_removeAll)
next
  case (QuitSettled c ok)
  with assms show ?thesis
    unfolding well_formed_def 
    by (auto simp: settle_quit_def destroyConnection_quit_resolved_def
          destroyConnection_quit_rejected_def library_closed_def)
next
  case (PingRejected c)
  with assms show ?thesis
    by (auto simp: well_formed_def ping_rejected_def)
next
  case HealthCheckResume
  with wf_resume_fold [OF assms] show ?thesis by (simp add: healthCheck_resume_def)
next
  case ShutdownCall
  have "well_formed (w\<lparr>isShuttingDown := True\<rparr>)" using assms by (simp add: well_formed_def)
  from wf_shutdown_fold [OF this, of "availableConnections w @ busyConnections w"] ShutdownCall
  show ?thesis by (simp add: shutdown_begin_def Let_def del: fold_append)
next
  case (Library c opn rdy)
  with assms show ?thesis unfolding well_formed_def by auto
qed

lemma wf_run: "well_formed w \<Longrightarrow> well_formed (run evs w)"
  by (induction evs arbitrary: w) (simp_all add: wf_step)

lemma wf_loop: "well_formed w \<Longrightarrow> well_formed (initializePool_loop sfx i k w)"
  by (induction sfx i k w rule: initializePool_loop.induct) (simp_all add: wf_createConnection_begin)

lemma wf_constructor: "well_formed (RedisPoolManager opts sfx)"
  unfolding RedisPoolManager_def initializePool_begin_def
  by (rule wf_loop) (simp add: well_formed_def constructor_fields_def)

lemma reachable_well_formed: "well_formed (run evs (RedisPoolManager opts sfx))"
  by (rule wf_run) (rule wf_constructor)

lemma reachable_sets:
  assumes "w = run evs (RedisPoolManager opts sfx)"
  shows "distinct (availableConnections w)"
    and "distinct (busyConnections w)"
    and "set (availableConnections w) \<inter> set (busyConnections w) = {}"
  using reachable_well_formed [of evs opts sfx] assms by (simp_all add: well_formed_def)

lemma reachable_tracked_id:
  assumes "w = run evs (RedisPoolManager opts sfx)"
    and "c \<in> set (availableConnections w) \<union> set (busyConnections w)"
  shows "truthy_id (connectionId (heap w c))"
  using reachable_well_formed [of evs opts sfx] assms by (simp add: well_formed_def)

section \<open>Properties of the health check\<close>

text \<open>
  A record whose creation has completed (its client exists and its \<open>connect()\<close> is not
  pending) stays so, and once it is unhealthy no event marks it healthy again: only
  the completion of its own \<open>connect()\<close> sets the flag.
\<close>

lemma step_settled:
  assumes "settled c w"
  shows "settled c (step e w)"
proof (cases e)
  case (AcquireCall sfx now)
  with assms show ?thesis
    by (auto simp add: settled_def acquireConnection_call_def Let_def take_available_def
          createConnection_begin_def split: list.splits)
next
  case (Release cl)
  with assms show ?thesis
    by (auto simp add: settled_def releaseConnection_def Let_def destroyConnection_begin_frame
          split: option.splits)
next
  case (ErrorEvent c' sfx)
  with assms show ?thesis
    by (auto simp add: settled_def on_error_def handleConnectionError_fields)
next
  case HealthCheckResume
  with assms show ?thesis
    by (simp add: settled_def healthCheck_resume_def resume_fold_frame)
next
  case ShutdownCall
  with assms show ?thesis by (simp add: settled_def shutdown_begin_def Let_def shutdown_fold)
next
  case (QuitSettled c ok)
  with assms show ?thesis
    by (auto simp add: settled_def settle_quit_def destroyConnection_quit_resolved_def
          destroyConnection_quit_rejected_def library_closed_def)
qed (use assms in \<open>auto simp add: settled_def replacement_failed_def createConnection_failed_def
      acquireConnection_created_def acquireConnection_create_failed_def checkForConnection_def
      take_available_def createConnection_connected_def library_connected_def
      removeConnection_def ping_rejected_def Let_def split: list.splits\<close>)

lemma step_unhealthy:
  assumes "settled c w" and "\<not> isHealthy (heap w c)"
  shows "\<not> isHealthy (heap (step e w) c)"
proof (cases e)
  case (AcquireCall sfx now)
  with assms show ?thesis
    by (auto simp add: settled_def acquireConnection_call_def Let_def take_available_def
          createConnection_begin_def split: list.splits)
next
  case (Release cl)
  with assms show ?thesis
    by (auto simp add: settled_def releaseConnection_def Let_def destroyConnection_begin_frame
          split: option.splits)
next
  case (ErrorEvent c' sfx)
  with assms show ?thesis
    by (auto simp add: settled_def on_error_def handleConnectionError_fields)
next
  case HealthCheckResume
  with assms show ?thesis
    by (simp add: settled_def healthCheck_resume_def resume_fold)
next
  case ShutdownCall
  with assms show ?thesis by (simp add: settled_def shutdown_begin_def Let_def shutdown_fold)
next
  case (QuitSettled c ok)
  with assms show ?thesis
    by (auto simp add: settled_def settle_quit_def destroyConnection_quit_resolved_def
          destroyConnection_quit_rejected_def library_closed_def)
qed (use assms in \<open>auto simp add: settled_def replacement_failed_def createConnection_failed_def
      acquireConnection_created_def acquireConnection_create_failed_def checkForConnection_def
      take_available_def createConnection_connected_def library_connected_def
      removeConnection_def ping_rejected_def Let_def split: list.splits\<close>)

lemma run_settled_unhealthy:
  "settled c w \<Longrightarrow> \<not> isHealthy (heap w c) \<Longrightarrow>
     settled c (run evs w) \<and> \<not> isHealthy (heap (run evs w) c)"
  by (induction evs arbitrary: w) (simp_all add: step_settled step_unhealthy)

lemma run_settled: "settled c w \<Longrightarrow> settled c (run evs w)"
  by (induction evs arbitrary: w) (simp_all add: step_settled)

text \<open>
  The loop that ends healthCheck: it keeps the healthy members of \<open>available\<close>, leaves
  \<open>busy\<close> alone, and is the sequence of destroyConnection calls on the unhealthy
  members of \<open>available\<close>.
\<close>

lemma healthCheck_resume_available:
  "availableConnections (healthCheck_resume v)
     = filter (\<lambda>c. isHealthy (heap v c)) (availableConnections v)"
  unfolding healthCheck_resume_def
  apply (simp add: resume_fold)
  apply (rule filter_cong [OF refl])
  apply blast
  done

lemma healthCheck_resume_busy:
  "c \<in> set (busyConnections v) \<Longrightarrow> c \<notin> set (availableConnections v) \<Longrightarrow>
     c \<in> set (busyConnections (healthCheck_resume v))"
  unfolding healthCheck_resume_def by (simp add: resume_fold)

lemma healthCheck_resume_fold_destroy:
  "fold (\<lambda>c u. if \<not> isHealthy (heap u c) then destroyConnection_begin (Some c) u else u) xs v
     = fold (\<lambda>c. destroyConnection_begin (Some c)) (filter (\<lambda>c. \<not> isHealthy (heap v c)) xs) v"
  by (induction xs arbitrary: v) (simp_all add: destroyConnection_begin_frame)

lemma healthCheck_resume_destroys:
  "healthCheck_resume v
     = fold (\<lambda>c. destroyConnection_begin (Some c))
         (filter (\<lambda>c. \<not> isHealthy (heap v c)) (availableConnections v)) v"
  by (simp add: healthCheck_resume_def healthCheck_resume_fold_destroy)

lemma healthCheck_resume_retires:
  assumes "settled c v" and "\<not> isHealthy (heap v c)"
  shows "retired c (healthCheck_resume v)"
  using assms
  by (simp add: retired_def settled_def healthCheck_resume_available)
     (simp add: healthCheck_resume_def resume_fold resume_fold_frame)

text \<open>
  A record that was available when healthCheck was called and whose probe failed is
  not in \<open>available\<close> once the loop has run, whatever happened before the probe failed
  (\<open>evs0\<close>), between that and the loop (\<open>evs1\<close>), and afterwards (\<open>evs2\<close>).
\<close>

lemma failed_probe_absent:
  assumes "well_formed w" and "c \<in> set (availableConnections w)"
  shows "c \<notin> set (availableConnections
           (run evs2 (healthCheck_resume (run evs1 (ping_rejected c (run evs0 w))))))"
proof -
  from assms have "settled c w" by (simp add: well_formed_def settled_def)
  then have s0: "settled c (run evs0 w)" by (rule run_settled)
  then have s1: "settled c (ping_rejected c (run evs0 w))"
    and u1: "\<not> isHealthy (heap (ping_rejected c (run evs0 w)) c)"
    by (simp_all add: settled_def ping_rejected_def)
  from run_settled_unhealthy [OF s1 u1, of evs1]
  have "retired c (healthCheck_resume (run evs1 (ping_rejected c (run evs0 w))))"
    by (intro healthCheck_resume_retires) simp_all
  from run_retired [OF this, of evs2] show ?thesis by (simp add: retired_def)
qed

lemma one_busy_well_formed: "well_formed one_busy"
  unfolding one_busy_def ready_pool_def started_pool_def
  by (intro wf_run wf_constructor)

text \<open>
  C7, as the spec states it, fails. Client 0 of \<open>one_available\<close> is available and its
  handle is open. A health check in which the probe of client 0 fails evicts it, but
  when the check resolves \<open>destroyed\<close> has not been incremented: destroyConnection is
  suspended in \<open>quit()\<close>, and healthCheck does not await it. If that close then fails,
  \<open>destroyed\<close> stays as it was.
\<close>

theorem healthCheck_destroyed_counterexample:
  "0 \<in> set (healthCheck_probed one_available)
   \<and> 0 \<notin> set (availableConnections (healthCheck (\<lambda>c. c \<noteq> 0) one_available))
   \<and> destroyed (stats (healthCheck (\<lambda>c. c \<noteq> 0) one_available)) = destroyed (stats one_available)
   \<and> quitting (healthCheck (\<lambda>c. c \<noteq> 0) one_available) = [0]
   \<and> destroyed (stats (step (QuitSettled 0 False) (healthCheck (\<lambda>c. c \<noteq> 0) one_available)))
       = destroyed (stats one_available)"
  by (simp add: example_defs healthCheck_def healthCheck_probed_def healthCheck_resume_def
        ping_rejected_def destroy_defs)

text \<open>
  C7, amended. The records probed by a healthCheck call are those in \<open>available\<close> when
  it is called; a record that is busy and not available then is not probed. The catch
  handler of a failed probe marks the record unhealthy. In a well-formed pool (every
  pool reachable from the constructor is), a probed record \<open>c\<close> whose probe failed is
  not in \<open>available\<close> when the call has resolved, nor later, whatever events ran before
  the probe failed (\<open>evs0\<close>), between that and the eviction loop (\<open>evs1\<close>) and after the
  loop (\<open>evs2\<close>). The eviction loop, on the pool \<open>v\<close> it finds when the probes have
  settled, is the sequence of destroyConnection calls on the records that are in
  \<open>available\<close> and unhealthy in \<open>v\<close>, and it leaves the healthy ones in \<open>available\<close>; a
  record that is busy and not available in \<open>v\<close> (one that was acquired after it was
  probed) stays busy. When the call resolves \<open>destroyed\<close> has been incremented by one
  for each record handed to destroyConnection whose handle was not open; for each one
  with an open handle a close is pending, and \<open>destroyed\<close> is incremented by one when that
  close succeeds and not when it fails.
\<close>

theorem healthCheck_evicts:
  "set (healthCheck_probed w) = set (availableConnections w)
   \<and> (b \<in> set (busyConnections w) \<and> b \<notin> set (availableConnections w) \<longrightarrow>
        b \<notin> set (healthCheck_probed w))
   \<and> \<not> isHealthy (heap (ping_rejected c u) c)
   \<and> (well_formed w \<and> c \<in> set (healthCheck_probed w) \<longrightarrow>
        c \<notin> set (availableConnections
              (run evs2 (healthCheck_resume (run evs1 (ping_rejected c (run evs0 w)))))))
   \<and> healthCheck_resume v
       = fold (\<lambda>c. destroyConnection_begin (Some c))
           (filter (\<lambda>c. \<not> isHealthy (heap v c)) (availableConnections v)) v
   \<and> availableConnections (healthCheck_resume v)
       = filter (\<lambda>c. isHealthy (heap v c)) (availableConnections v)
   \<and> (a \<in> set (busyConnections v) \<and> a \<notin> set (availableConnections v) \<longrightarrow>
        a \<in> set (busyConnections (healthCheck_resume v)))
   \<and> destroyed (stats (healthCheck_resume v))
       = destroyed (stats v)
         + length (filter (\<lambda>c. \<not> isHealthy (heap v c) \<and> \<not> isOpen (heap v c))
                     (availableConnections v))
   \<and> quitting (healthCheck_resume v)
       = quitting v @ filter (\<lambda>c. \<not> isHealthy (heap v c) \<and> isOpen (heap v c))
                        (availableConnections v)
   \<and> destroyed (stats (settle_quit (\<lambda>_. ok) q x))
       = destroyed (stats x) + (if ok then 1 else 0)"
proof -
  have absent: "well_formed w \<and> c \<in> set (healthCheck_probed w) \<longrightarrow>
        c \<notin> set (availableConnections
              (run evs2 (healthCheck_resume (run evs1 (ping_rejected c (run evs0 w))))))"
    using failed_probe_absent [of w c evs2 evs1 evs0] by (simp add: healthCheck_probed_def)
  have busy: "a \<in> set (busyConnections v) \<and> a \<notin> set (availableConnections v) \<longrightarrow>
        a \<in> set (busyConnections (healthCheck_resume v))"
    using healthCheck_resume_busy [of a v] by blast
  have counts: "destroyed (stats (healthCheck_resume v))
       = destroyed (stats v)
         + length (filter (\<lambda>c. \<not> isHealthy (heap v c) \<and> \<not> isOpen (heap v c))
                     (availableConnections v))"
    "quitting (healthCheck_resume v)
       = quitting v @ filter (\<lambda>c. \<not> isHealthy (heap v c) \<and> isOpen (heap v c))
                        (availableConnections v)"
    by (simp_all add: healthCheck_resume_def resume_fold)
  have settle: "destroyed (stats (settle_quit (\<lambda>_. ok) q x))
       = destroyed (stats x) + (if ok then 1 else 0)"
    by (simp add: destroy_defs)
  have probed: "set (healthCheck_probed w) = set (availableConnections w)"
    "b \<in> set (busyConnections w) \<and> b \<notin> set (availableConnections w) \<longrightarrow>
        b \<notin> set (healthCheck_probed w)"
    "\<not> isHealthy (heap (ping_rejected c u) c)"
    by (simp_all add: healthCheck_probed_def ping_rejected_def)
  from probed absent busy counts settle healthCheck_resume_destroys [of v]
       healthCheck_resume_available [of v]
  show ?thesis by blast
qed

text \<open>
  The pool with client 0 busy and client 1 available. In the first run client 1 is
  acquired after it was probed, its probe fails, the loop runs and the borrower releases
  it; in the second nothing else runs, and the close of client 1 succeeds.
\<close>

theorem healthCheck_evicts_witness:
  "1 \<in> set (healthCheck_probed one_busy)
   \<and> 0 \<in> set (busyConnections one_busy) \<and> 0 \<notin> set (healthCheck_probed one_busy)
   \<and> 1 \<notin> set (availableConnections
         (run [Release (Some 1)]
            (healthCheck_resume (run [] (ping_rejected 1 (run [AcquireCall ''b'' 3] one_busy))))))
   \<and> 1 \<in> set (busyConnections
         (healthCheck_resume (ping_rejected 1 (run [AcquireCall ''b'' 3] one_busy))))
   \<and> availableConnections (healthCheck_resume (ping_rejected 1 one_busy)) = []
   \<and> quitting (healthCheck_resume (ping_rejected 1 one_busy)) = [1]
   \<and> destroyed (stats (settle_quit (\<lambda>_. True) 1 (healthCheck_resume (ping_rejected 1 one_busy)))) = 1"
proof -
  have wf: "well_formed one_busy" by (rule one_busy_well_formed)
  have a: "availableConnections one_busy = [1]" by (simp add: example_defs)
  have b: "busyConnections one_busy = [0]" by (simp add: example_defs)
  have p: "1 \<in> set (healthCheck_probed one_busy)" by (simp add: healthCheck_probed_def a)
  have av: "availableConnections (ping_rejected 1 (run [AcquireCall ''b'' 3] one_busy)) = []"
    by (simp add: example_defs ping_rejected_def)
  have bu: "1 \<in> set (busyConnections (ping_rejected 1 (run [AcquireCall ''b'' 3] one_busy)))"
    by (simp add: example_defs ping_rejected_def)
  have pa: "availableConnections (ping_rejected 1 one_busy) = [1]" by (simp add: ping_rejected_def a)
  have ph: "\<not> isHealthy (heap (ping_rejected 1 one_busy) 1)" by (simp add: ping_rejected_def)
  have po: "isOpen (heap (ping_rejected 1 one_busy) 1)" by (simp add: example_defs ping_rejected_def)
  have pq: "quitting (ping_rejected 1 one_busy) = []" by (simp add: example_defs ping_rejected_def)
  have pd: "destroyed (stats (ping_rejected 1 one_busy)) = 0" by (simp add: example_defs ping_rejected_def)
  note t1 = healthCheck_evicts [of one_busy 0 1 one_busy "[Release (Some 1)]" "[]"
       "[AcquireCall ''b'' 3]" "ping_rejected 1 (run [AcquireCall ''b'' 3] one_busy)" 1 True 1
       "healthCheck_resume (ping_rejected 1 one_busy)"]
  note t2 = healthCheck_evicts [of one_busy 0 1 one_busy "[]" "[]" "[]"
       "ping_rejected 1 one_busy" 1 True 1 "healthCheck_resume (ping_rejected 1 one_busy)"]
  have b0: "0 \<in> set (busyConnections one_busy) \<and> 0 \<notin> set (availableConnections one_busy)"
    by (simp add: a b)
  have b1: "1 \<in> set (busyConnections (ping_rejected 1 (run [AcquireCall ''b'' 3] one_busy)))
      \<and> 1 \<notin> set (availableConnections (ping_rejected 1 (run [AcquireCall ''b'' 3] one_busy)))"
    using av bu by simp
  from t1 b0 have x0: "0 \<notin> set (healthCheck_probed one_busy)" by blast
  from t1 wf p have x1: "1 \<notin> set (availableConnections
         (run [Release (Some 1)]
            (healthCheck_resume (run [] (ping_rejected 1 (run [AcquireCall ''b'' 3] one_busy))))))"
    by blast
  from t1 b1 have x2: "1 \<in> set (busyConnections
         (healthCheck_resume (ping_rejected 1 (run [AcquireCall ''b'' 3] one_busy))))"
    by blast
  from t2 have e1: "availableConnections (healthCheck_resume (ping_rejected 1 one_busy))
       = filter (\<lambda>c. isHealthy (heap (ping_rejected 1 one_busy) c))
           (availableConnections (ping_rejected 1 one_busy))"
    by blast
  from t2 have e2: "quitting (healthCheck_resume (ping_rejected 1 one_busy))
       = quitting (ping_rejected 1 one_busy)
         @ filter (\<lambda>c. \<not> isHealthy (heap (ping_rejected 1 one_busy) c)
                       \<and> isOpen (heap (ping_rejected 1 one_busy) c))
             (availableConnections (ping_rejected 1 one_busy))"
    by blast
  from t2 have e3: "destroyed (stats (healthCheck_resume (ping_rejected 1 one_busy)))
       = destroyed (stats (ping_rejected 1 one_busy))
         + length (filter (\<lambda>c. \<not> isHealthy (heap (ping_rejected 1 one_busy) c)
                       \<and> \<not> isOpen (heap (ping_rejected 1 one_busy) c))
             (availableConnections (ping_rejected 1 one_busy)))"
    by blast
  from t2 have e4: "destroyed (stats (settle_quit (\<lambda>_. True) 1
          (healthCheck_resume (ping_rejected 1 one_busy))))
       = destroyed (stats (healthCheck_resume (ping_rejected 1 one_busy))) + (if True then 1 else 0)"
    by blast
  from e1 e2 e3 e4 pa ph po pq pd have second:
    "availableConnections (healthCheck_resume (ping_rejected 1 one_busy)) = []
   \<and> quitting (healthCheck_resume (ping_rejected 1 one_busy)) = [1]
   \<and> destroyed (stats (settle_quit (\<lambda>_. True) 1 (healthCheck_resume (ping_rejected 1 one_busy)))) = 1"
    by simp
  from p b x0 x1 x2 second show ?thesis by simp
qed

end
